theory Spec2Isabelle
  imports Complex_Main "HOL-Library.Sublist" "HOL-Library.AList"
begin

section \<open>Strings\<close>

text \<open>
  Strings are byte lists. \<open>str.lower()\<close> is modelled on the ASCII letters, which is all the
  keyword tables of \<open>main.py\<close> contain; every other byte is left as it is. No theorem below
  unfolds \<open>lower\<close> on the user's text: the results are stated about \<open>lower text\<close> as a whole.
  Python's \<open>w in t\<close> on two strings is contiguous containment, \<open>sublist w t\<close>.
\<close>

definition lower_char :: "char \<Rightarrow> char" where
  "lower_char c =
     (case map_of (zip ''ABCDEFGHIJKLMNOPQRSTUVWXYZ'' ''abcdefghijklmnopqrstuvwxyz'') c of
        Some d \<Rightarrow> d
      | None \<Rightarrow> c)"

definition lower :: "string \<Rightarrow> string" where
  "lower s = map lower_char s"

text \<open>\<open>any(word in t for word in ws)\<close>\<close>

definition any_in :: "string list \<Rightarrow> string \<Rightarrow> bool" where
  "any_in ws t = list_ex (\<lambda>word. sublist word t) ws"

section \<open>Intent detection\<close>

text \<open>\<open>detect_intent\<close>, branch by branch as in the source; the tags are the source's strings.\<close>

definition detect_intent :: "string \<Rightarrow> string" where
  "detect_intent text =
     (let t = lower text in
      if any_in [''attendance'', ''present'', ''absent''] t then ''attendance''
      else if any_in [''timetable'', ''schedule'', ''class today'', ''classes today'',
                      ''today's class''] t then ''timetable''
      else if any_in [''exam'', ''test'', ''examination'', ''mid-sem'', ''end-sem''] t then ''exams''
      else if any_in [''grade'', ''result'', ''marks'', ''cgpa'', ''sgpa'', ''gpa'', ''score''] t
        then ''grades''
      else if any_in [''library'', ''book'', ''borrow'', ''due'', ''fine''] t then ''library''
      else if any_in [''fee'', ''payment'', ''pay'', ''dues'', ''tuition''] t then ''fees''
      else if any_in [''notice'', ''announcement'', ''news'', ''update'', ''circular''] t
        then ''notices''
      else if any_in [''course'', ''subject'', ''credit'', ''professor'', ''teacher''] t
        then ''courses''
      else if any_in [''profile'', ''my info'', ''my details'', ''about me'', ''student info''] t
        then ''profile''
      else if any_in [''help'', ''what can you'', ''how to'', ''assist''] t then ''help''
      else if any_in [''hello'', ''hi'', ''hey'', ''good morning'', ''good afternoon'',
                      ''good evening''] t then ''greet''
      else if any_in [''placement'', ''job'', ''internship'', ''recruit'', ''company'', ''package'',
                      ''ctc''] t then ''placements''
      else if any_in [''event'', ''club'', ''workshop'', ''fest'', ''seminar'', ''hackathon'',
                      ''activity''] t then ''events''
      else if any_in [''faculty'', ''professor'', ''teacher'', ''appointment'', ''cabin'',
                      ''meet sir'', ''meet ma'am''] t then ''faculty''
      else if any_in [''cafeteria'', ''canteen'', ''food'', ''menu'', ''order'', ''eat'', ''lunch'',
                      ''snack''] t then ''cafeteria''
      else if any_in [''predict cgpa'', ''calculate cgpa'', ''target cgpa'', ''gpa calculator''] t
        then ''cgpa_calc''
      else ''unknown'')"

text \<open>
  The specification's reading of the classifier: a fixed ordered list of
  (keyword set, tag) rules, tried in order, the first rule with a keyword contained in
  the text giving the tag, and \<open>unknown\<close> when no rule applies.
\<close>

definition intent_rules :: "(string list \<times> string) list" where
  "intent_rules =
     [([''attendance'', ''present'', ''absent''], ''attendance''),
      ([''timetable'', ''schedule'', ''class today'', ''classes today'', ''today's class''],
       ''timetable''),
      ([''exam'', ''test'', ''examination'', ''mid-sem'', ''end-sem''], ''exams''),
      ([''grade'', ''result'', ''marks'', ''cgpa'', ''sgpa'', ''gpa'', ''score''], ''grades''),
      ([''library'', ''book'', ''borrow'', ''due'', ''fine''], ''library''),
      ([''fee'', ''payment'', ''pay'', ''dues'', ''tuition''], ''fees''),
      ([''notice'', ''announcement'', ''news'', ''update'', ''circular''], ''notices''),
      ([''course'', ''subject'', ''credit'', ''professor'', ''teacher''], ''courses''),
      ([''profile'', ''my info'', ''my details'', ''about me'', ''student info''], ''profile''),
      ([''help'', ''what can you'', ''how to'', ''assist''], ''help''),
      ([''hello'', ''hi'', ''hey'', ''good morning'', ''good afternoon'', ''good evening''],
       ''greet''),
      ([''placement'', ''job'', ''internship'', ''recruit'', ''company'', ''package'', ''ctc''],
       ''placements''),
      ([''event'', ''club'', ''workshop'', ''fest'', ''seminar'', ''hackathon'', ''activity''],
       ''events''),
      ([''faculty'', ''professor'', ''teacher'', ''appointment'', ''cabin'', ''meet sir'',
        ''meet ma'am''], ''faculty''),
      ([''cafeteria'', ''canteen'', ''food'', ''menu'', ''order'', ''eat'', ''lunch'', ''snack''],
       ''cafeteria''),
      ([''predict cgpa'', ''calculate cgpa'', ''target cgpa'', ''gpa calculator''],
       ''cgpa_calc'')]"

fun first_match :: "(string list \<times> string) list \<Rightarrow> string \<Rightarrow> string" where
  "first_match [] t = ''unknown''"
| "first_match ((keywords, tag) # rules) t =
     (if \<exists>word \<in> set keywords. sublist word t then tag else first_match rules t)"

section \<open>Day extraction\<close>

text \<open>
  The clock is an input. \<open>datetime.now().weekday()\<close> counts from Monday = 0, and
  \<open>strftime("%A")\<close> is the English day name (the C locale).
\<close>

datatype weekday = Monday | Tuesday | Wednesday | Thursday | Friday | Saturday | Sunday

fun weekday_index :: "weekday \<Rightarrow> nat" where
  "weekday_index Monday = 0"
| "weekday_index Tuesday = 1"
| "weekday_index Wednesday = 2"
| "weekday_index Thursday = 3"
| "weekday_index Friday = 4"
| "weekday_index Saturday = 5"
| "weekday_index Sunday = 6"

fun strftime_A :: "weekday \<Rightarrow> string" where
  "strftime_A Monday = ''Monday''"
| "strftime_A Tuesday = ''Tuesday''"
| "strftime_A Wednesday = ''Wednesday''"
| "strftime_A Thursday = ''Thursday''"
| "strftime_A Friday = ''Friday''"
| "strftime_A Saturday = ''Saturday''"
| "strftime_A Sunday = ''Sunday''"

definition days :: "string list" where
  "days = [''monday'', ''tuesday'', ''wednesday'', ''thursday'', ''friday'', ''saturday'',
           ''sunday'']"

text \<open>The \<open>for day in days\<close> loop, returning at the first day contained in the text.\<close>

fun first_day_in :: "string list \<Rightarrow> string \<Rightarrow> string option" where
  "first_day_in [] t = None"
| "first_day_in (day # rest) t = (if sublist day t then Some day else first_day_in rest t)"

definition get_day_from_text :: "weekday \<Rightarrow> string \<Rightarrow> string" where
  "get_day_from_text now text =
     (let t = lower text in
      if sublist ''today'' t then lower (strftime_A now)
      else if sublist ''tomorrow'' t then days ! ((weekday_index now + 1) mod 7)
      else (case first_day_in days t of
              Some day \<Rightarrow> day
            | None \<Rightarrow> lower (strftime_A now)))"

text \<open>The specification's vocabulary for days: the lowercase name of a weekday and its successor.\<close>

fun day_name :: "weekday \<Rightarrow> string" where
  "day_name Monday = ''monday''"
| "day_name Tuesday = ''tuesday''"
| "day_name Wednesday = ''wednesday''"
| "day_name Thursday = ''thursday''"
| "day_name Friday = ''friday''"
| "day_name Saturday = ''saturday''"
| "day_name Sunday = ''sunday''"

fun following_day :: "weekday \<Rightarrow> weekday" where
  "following_day Monday = Tuesday"
| "following_day Tuesday = Wednesday"
| "following_day Wednesday = Thursday"
| "following_day Thursday = Friday"
| "following_day Friday = Saturday"
| "following_day Saturday = Sunday"
| "following_day Sunday = Monday"

section \<open>Numbers as Python prints and rounds them\<close>

text \<open>
  \<open>str(n)\<close> of an integer, and the format \<open>{n:03d}\<close>: decimal digits, padded with zeros
  to three characters, the sign counted.
\<close>

fun str_nat :: "nat \<Rightarrow> string" where
  "str_nat n =
     (if n < 10 then [''0123456789'' ! n]
      else str_nat (n div 10) @ [''0123456789'' ! (n mod 10)])"

definition str_int :: "int \<Rightarrow> string" where
  "str_int i = (if i < 0 then ''-'' @ str_nat (nat (- i)) else str_nat (nat i))"



text \<open>
  Python computes \<open>present / total\<close> and \<open>total_points / total_credits\<close> in binary floating
  point. The model computes the quotients exactly, in the rationals, and rounds as
  \<open>round\<close> does: to the nearest integer, a tie going to the even neighbour. \<open>round(x, 2)\<close>
  is the same rounding at the second decimal. The model is the program wherever the double
  nearest to the quotient rounds as the quotient does. It is not where the quotient is an
  exact tie in decimal and not in binary, nor where the quotient is beyond the range of a
  double (Python raises \<open>OverflowError\<close>). The concrete runs below use quotients that
  doubles hold exactly or far from a tie: 9/10, -1/2, 9 and 60/7.
\<close>

definition py_round :: "rat \<Rightarrow> int" where
  "py_round x =
     (let f = \<lfloor>x\<rfloor>; d = x - of_int f in
      if d < 1 / 2 then f
      else if 1 / 2 < d then f + 1
      else if even f then f else f + 1)"


text \<open>\<open>sep.join(xs)\<close>\<close>

fun join :: "string \<Rightarrow> string list \<Rightarrow> string" where
  "join sep [] = []"
| "join sep [x] = x"
| "join sep (x # y # ys) = x @ sep @ join sep (y # ys)"

section \<open>The record store\<close>

text \<open>
  The store is the JSON document \<open>student_data.json\<close>. The parts of it that the operations
  modelled here read or write are typed records; the parts they only carry along are JSON
  values. A dict is an association list in insertion order: \<open>d[k] = v\<close> is
  \<open>AList.update k v d\<close>, which replaces the value in place or appends the new key,
  \<open>del d[k]\<close> is \<open>AList.delete k d\<close>, \<open>k in d\<close> is \<open>map_of d k \<noteq> None\<close>, and
  \<open>d.values()\<close> is \<open>map snd d\<close>.
\<close>

datatype json =
    JNull
  | JBool bool
  | JNum rat
  | JStr string
  | JList "json list"
  | JObj "(string \<times> json) list"

record subject_entry =
  s_present :: int
  s_total :: int
  s_percent :: int

record attendance_rec =
  overall_percent :: int
  total_classes :: int
  present :: int
  absent :: int
  subjects :: "(string \<times> subject_entry) list"

record grade_entry =
  grade :: string
  marks :: int
  credits :: int

record grades_rec =
  current_semester :: "(string \<times> grade_entry) list"
  sgpa :: rat
  g_cgpa :: rat
  total_credits :: int
  earned_credits :: int

record exam =
  ex_subject :: string
  ex_date :: string
  ex_time :: string
  ex_venue :: string
  ex_type :: string
  ex_days_left :: int

record payment =
  pay_date :: string
  pay_amount :: int
  pay_mode :: string
  receipt :: string

record fees_rec =
  total_fee :: int
  paid :: int
  pending :: int
  due_date :: string
  payment_history :: "payment list"
  breakdown :: json

record student =
  sid :: string
  name :: string
  email :: string
  phone :: string
  course :: string
  year :: string
  semester :: string
  st_section :: string
  roll_no :: string
  dob :: string
  address :: string
  cgpa :: rat
  attendance :: attendance_rec
  grades :: grades_rec
  exams :: "exam list"
  library :: json
  fees :: fees_rec
  courses :: json
  faculty_appointments :: "json option"
  cafeteria_orders :: "json option"

record data =
  students :: "(string \<times> student) list"
  notices :: json
  timetable :: json
  cafeteria :: "json option"
  placements :: "json option"
  events :: "json option"
  faculty :: "json option"

text \<open>
  The process holds the store in the global \<open>DATA\<close>; the file on disk is \<open>FILE\<close>, \<open>None\<close>
  when it cannot be read. \<open>save_data\<close> writes the whole of \<open>DATA\<close>; a failing write is
  outside the model.
\<close>

record app_state =
  DATA :: data
  FILE :: "data option"

datatype error = HTTPException nat string | LoadFailed | RenderFailed string

definition save_data :: "app_state \<Rightarrow> app_state" where
  "save_data s = s\<lparr>FILE := Some (DATA s)\<rparr>"

text \<open>Assignment through \<open>DATA["students"][key]\<close>: the record under \<open>key\<close> is replaced in place.\<close>

definition put_student :: "string \<Rightarrow> student \<Rightarrow> app_state \<Rightarrow> app_state" where
  "put_student key st s =
     s\<lparr>DATA := (DATA s)\<lparr>students := AList.update key st (students (DATA s))\<rparr>\<rparr>"

section \<open>Attendance\<close>

record attendance_update =
  au_student_key :: string
  au_subject :: string
  au_present :: int
  au_total :: int

definition update_attendance ::
  "app_state \<Rightarrow> attendance_update \<Rightarrow> error + (string \<times> app_state)" where
  "update_attendance s att =
     (let key = lower (au_student_key att) in
      case map_of (students (DATA s)) key of
        None \<Rightarrow> Inl (HTTPException 404 ''Student not found'')
      | Some st \<Rightarrow>
          let percent =
                (if au_total att > 0
                 then py_round ((of_int (au_present att) / of_int (au_total att)) * 100)
                 else 0);
              subjs = AList.update (au_subject att)
                        \<lparr>s_present = au_present att, s_total = au_total att, s_percent = percent\<rparr>
                        (subjects (attendance st));
              total_present = (\<Sum>e\<leftarrow>map snd subjs. s_present e);
              total_classes' = (\<Sum>e\<leftarrow>map snd subjs. s_total e);
              att' = (attendance st)
                       \<lparr>subjects := subjs,
                        present := total_present,
                        total_classes := total_classes',
                        absent := total_classes' - total_present,
                        overall_percent :=
                          (if total_classes' > 0
                           then py_round ((of_int total_present / of_int total_classes') * 100)
                           else 0)\<rparr>
          in Inr (''Attendance updated for '' @ au_subject att,
                  save_data (put_student key (st\<lparr>attendance := att'\<rparr>) s)))"

definition delete_attendance ::
  "app_state \<Rightarrow> string \<Rightarrow> string \<Rightarrow> error + (string \<times> app_state)" where
  "delete_attendance s student_key subject =
     (let key = lower student_key in
      case map_of (students (DATA s)) key of
        None \<Rightarrow> Inl (HTTPException 404 ''Student not found'')
      | Some st \<Rightarrow>
          Inr (''Attendance deleted for '' @ subject,
               if map_of (subjects (attendance st)) subject \<noteq> None
               then save_data
                      (put_student key
                         (st\<lparr>attendance := (attendance st)
                               \<lparr>subjects := AList.delete subject (subjects (attendance st))\<rparr>\<rparr>) s)
               else s))"

section \<open>Grades\<close>






definition delete_grade ::
  "app_state \<Rightarrow> string \<Rightarrow> string \<Rightarrow> error + (string \<times> app_state)" where
  "delete_grade s student_key subject =
     (let key = lower student_key in
      case map_of (students (DATA s)) key of
        None \<Rightarrow> Inl (HTTPException 404 ''Student not found'')
      | Some st \<Rightarrow>
          Inr (''Grade deleted for '' @ subject,
               if map_of (current_semester (grades st)) subject \<noteq> None
               then save_data
                      (put_student key
                         (st\<lparr>grades := (grades st)
                               \<lparr>current_semester :=
                                  AList.delete subject (current_semester (grades st))\<rparr>\<rparr>) s)
               else s))"

section \<open>Exams\<close>

definition delete_exam ::
  "app_state \<Rightarrow> string \<Rightarrow> string \<Rightarrow> error + (string \<times> app_state)" where
  "delete_exam s student_key subject =
     (let key = lower student_key in
      case map_of (students (DATA s)) key of
        None \<Rightarrow> Inl (HTTPException 404 ''Student not found'')
      | Some st \<Rightarrow>
          Inr (''Exam deleted for '' @ subject,
               save_data
                 (put_student key
                    (st\<lparr>exams := filter (\<lambda>e. ex_subject e \<noteq> subject) (exams st)\<rparr>) s)))"

section \<open>Fees\<close>





section \<open>Answering a query\<close>

record user_query =
  q_text :: string
  q_user :: string

text \<open>The decorations of the attendance reply, as the bytes of the source file.\<close>

definition nl :: string where
  "nl = [CHR 0x0A]"

definition icon_chart :: string where
  "icon_chart = [CHR 0xC4, CHR 0x9F, CHR 0xC5, CHR 0xB8, CHR 0xE2, CHR 0x80, CHR 0x9C, CHR 0xC5,
                 CHR 0xA0]"

definition bullet :: string where
  "bullet = [CHR 0xC3, CHR 0xA2, CHR 0xE2, CHR 0x82, CHR 0xAC, CHR 0xC2, CHR 0xA2]"

definition icon_warning :: string where
  "icon_warning = [CHR 0xC3, CHR 0xA2, CHR 0xC5, CHR 0xA1, CHR 0xC2, CHR 0xA0, CHR 0xC3, CHR 0xAF,
                   CHR 0xC2, CHR 0xB8]"

definition icon_star :: string where
  "icon_star = [CHR 0xC4, CHR 0x9F, CHR 0xC5, CHR 0xB8, CHR 0xC5, CHR 0x92, CHR 0xC5, CHR 0xB8]"

text \<open>The reply of the attendance branch before its \<open>if overall < 75\<close>.\<close>

definition attendance_summary :: "attendance_rec \<Rightarrow> string" where
  "attendance_summary att =
     (let subject_details =
            map (\<lambda>(subj, e). subj @ '': '' @ str_int (s_percent e) @ ''%'') (subjects att)
      in icon_chart @ '' Your overall attendance is '' @ str_int (overall_percent att) @ ''%.'' @ nl
         @ ''Classes attended: '' @ str_int (present att) @ ''/'' @ str_int (total_classes att)
         @ '' (Absent: '' @ str_int (absent att) @ '')'' @ nl @ nl
         @ ''Subject-wise breakdown:'' @ nl
         @ join nl (map (\<lambda>d. bullet @ '' '' @ d) subject_details))"

definition low_attendance_warning :: string where
  "low_attendance_warning =
     nl @ nl @ icon_warning
     @ '' Warning: Your attendance is below 75%. Please attend more classes!''"

definition commendation :: string where
  "commendation = nl @ nl @ icon_star @ '' Excellent attendance! Keep it up!''"

definition attendance_reply :: "attendance_rec \<Rightarrow> string" where
  "attendance_reply att =
     (let overall = overall_percent att; reply = attendance_summary att in
      if overall < 75 then reply @ low_attendance_warning
      else if overall \<ge> 90 then reply @ commendation
      else reply)"

text \<open>
  \<open>process\<close>. The store is read again from the file; the caller's record is looked up
  before the intent is used; the attendance branch and the final fallback are modelled in
  full. The fifteen branches between them only read the record and the store to format
  a reply: they are the parameter \<open>render\<close> (intent, lowercased text, record, store),
  which may fail, so every result below holds whatever those branches do.
\<close>

definition other_intents :: "string list" where
  "other_intents =
     [''timetable'', ''exams'', ''grades'', ''library'', ''fees'', ''notices'', ''courses'',
      ''profile'', ''help'', ''greet'', ''placements'', ''events'', ''faculty'', ''cafeteria'',
      ''cgpa_calc'']"

definition not_found_reply :: "string \<Rightarrow> string" where
  "not_found_reply user =
     ''Sorry, I couldn't find data for '' @ user @ ''. Please check your credentials.''"

definition fallback_reply :: string where
  "fallback_reply =
     ''I didn't understand. Try asking about attendance, timetable, exams, fees, library, placements, events, faculty, or cafeteria!''"

definition process ::
  "(string \<Rightarrow> string \<Rightarrow> student \<Rightarrow> data \<Rightarrow> error + string) \<Rightarrow> app_state \<Rightarrow> user_query
     \<Rightarrow> (error + string) \<times> app_state" where
  "process render s query =
     (case FILE s of
        None \<Rightarrow> (Inl LoadFailed, s)
      | Some loaded \<Rightarrow>
          let s' = s\<lparr>DATA := loaded\<rparr>;
              text = lower (q_text query);
              intent = detect_intent text;
              user_key = lower (q_user query)
          in case map_of (students (DATA s')) user_key of
               None \<Rightarrow> (Inr (not_found_reply (q_user query)), s')
             | Some st \<Rightarrow>
                 if intent = ''attendance'' then (Inr (attendance_reply (attendance st)), s')
                 else if intent \<in> set other_intents then (render intent text st (DATA s'), s')
                 else (Inr fallback_reply, s'))"

section \<open>A store to run the operations on\<close>

text \<open>
  One student, as \<open>create_student\<close> builds the record: aggregates zero, detail empty.
\<close>

definition ada :: student where
  "ada =
     \<lparr>sid = ''CSE2024A01'', name = ''Ada Lovelace'', email = ''ada@example.edu'',
      phone = ''5550100'', course = ''B.Tech CSE'', year = ''2'', semester = ''3'',
      st_section = ''A'', roll_no = ''21'', dob = ''10 Dec 2004'', address = ''London'',
      cgpa = 0,
      attendance =
        \<lparr>overall_percent = 0, total_classes = 0, present = 0, absent = 0, subjects = []\<rparr>,
      grades =
        \<lparr>current_semester = [], sgpa = 0, g_cgpa = 0, total_credits = 0, earned_credits = 0\<rparr>,
      exams = [],
      library = JObj [(''books_borrowed'', JList []), (''total_borrowed'', JNum 0),
                      (''total_fine'', JNum 0), (''max_books'', JNum 5)],
      fees =
        \<lparr>total_fee = 0, paid = 0, pending = 0, due_date = '''', payment_history = [],
         breakdown = JObj []\<rparr>,
      courses = JList [],
      faculty_appointments = None,
      cafeteria_orders = None\<rparr>"

definition store0_data :: data where
  "store0_data =
     \<lparr>students = [(''ada lovelace'', ada)], notices = JList [], timetable = JObj [],
      cafeteria = None, placements = None, events = None, faculty = None\<rparr>"

definition store0 :: app_state where
  "store0 = \<lparr>DATA = store0_data, FILE = Some store0_data\<rparr>"

text \<open>
  Reading a state and a handler's result: the state after a request (a request answered
  with an error leaves the state as it was), and a student's record, attendance and grades
  in a state or in a result (\<open>None\<close> for an error or a missing student).
\<close>

definition state_after :: "app_state \<Rightarrow> error + (string \<times> app_state) \<Rightarrow> app_state" where
  "state_after s r = (case r of Inl e \<Rightarrow> s | Inr (msg, s') \<Rightarrow> s')"

definition student_in :: "app_state \<Rightarrow> string \<Rightarrow> student option" where
  "student_in s student_key = map_of (students (DATA s)) (lower student_key)"

definition attendance_in :: "app_state \<Rightarrow> string \<Rightarrow> attendance_rec option" where
  "attendance_in s student_key = map_option attendance (student_in s student_key)"


definition student_after :: "error + (string \<times> app_state) \<Rightarrow> string \<Rightarrow> student option" where
  "student_after r student_key =
     (case r of
        Inl e \<Rightarrow> None
      | Inr (msg, s) \<Rightarrow> student_in s student_key)"

definition attendance_after ::
  "error + (string \<times> app_state) \<Rightarrow> string \<Rightarrow> attendance_rec option" where
  "attendance_after r student_key = map_option attendance (student_after r student_key)"


definition store_maths :: app_state where
  "store_maths =
     state_after store0
       (update_attendance store0
          \<lparr>au_student_key = ''Ada Lovelace'', au_subject = ''Maths'', au_present = 18,
           au_total = 20\<rparr>)"


text \<open>
  The aggregates of the specification, recomputed from the per-subject entries (with the
  guards of the code: a total that is not positive gives 0).
\<close>

definition sum_present :: "(string \<times> subject_entry) list \<Rightarrow> int" where
  "sum_present subjs = (\<Sum>e\<leftarrow>map snd subjs. s_present e)"

definition sum_total :: "(string \<times> subject_entry) list \<Rightarrow> int" where
  "sum_total subjs = (\<Sum>e\<leftarrow>map snd subjs. s_total e)"

definition percent_of :: "int \<Rightarrow> int \<Rightarrow> int" where
  "percent_of p t = (if t > 0 then py_round (of_int p / of_int t * 100) else 0)"



section \<open>Properties of the classifier\<close>

lemma any_in_iff: "any_in ws t \<longleftrightarrow> (\<exists>word \<in> set ws. sublist word t)"
  by (simp add: any_in_def list_ex_iff)

lemma detect_intent_first_match: "detect_intent text = first_match intent_rules (lower text)"
  by (simp add: detect_intent_def intent_rules_def any_in_iff Let_def del: set_simps)

lemma first_match_unknown:
  "\<forall>(keywords, tag) \<in> set rules. \<forall>word \<in> set keywords. \<not> sublist word t \<Longrightarrow>
   first_match rules t = ''unknown''"
  by (induction rules) auto

text \<open>
  Claim C5. The classifier is a function of the lowercased text alone and agrees with the
  first-match reading of the ordered rule table; a text whose lowercase form contains one of
  \<open>attendance\<close>, \<open>present\<close>, \<open>absent\<close> is tagged \<open>attendance\<close> whatever else it contains
  (there is no further condition, so keywords of later rules change nothing); a text whose
  lowercase form contains no keyword of any rule is tagged \<open>unknown\<close>.
\<close>

theorem detect_intent_first_match_wins:
  "detect_intent text = first_match intent_rules (lower text)
   \<and> (lower text = lower text' \<longrightarrow> detect_intent text = detect_intent text')
   \<and> ((\<exists>word \<in> set [''attendance'', ''present'', ''absent'']. sublist word (lower text))
        \<longrightarrow> detect_intent text = ''attendance'')
   \<and> ((\<forall>(keywords, tag) \<in> set intent_rules. \<forall>word \<in> set keywords.
          \<not> sublist word (lower text))
        \<longrightarrow> detect_intent text = ''unknown'')"
proof (intro conjI impI)
  show "detect_intent text = first_match intent_rules (lower text)"
    by (rule detect_intent_first_match)
  show "detect_intent text = detect_intent text'" if "lower text = lower text'"
    using that by (simp add: detect_intent_def)
  show "detect_intent text = ''attendance''"
    if "\<exists>word \<in> set [''attendance'', ''present'', ''absent'']. sublist word (lower text)"
    using that by (simp add: detect_intent_def any_in_iff Let_def del: set_simps)
  show "detect_intent text = ''unknown''"
    if "\<forall>(keywords, tag) \<in> set intent_rules. \<forall>word \<in> set keywords.
          \<not> sublist word (lower text)"
    using that by (simp only: detect_intent_first_match first_match_unknown)
qed

theorem detect_intent_first_match_wins_witness:
  "detect_intent ''My ATTENDANCE and my grades'' = ''attendance''
   \<and> detect_intent ''Zzz'' = ''unknown''
   \<and> detect_intent ''zzZ'' = detect_intent ''Zzz''"
proof -
  have a: "\<exists>word \<in> set [''attendance'', ''present'', ''absent''].
             sublist word (lower ''My ATTENDANCE and my grades'')"
    by code_simp
  have u: "\<forall>(keywords, tag) \<in> set intent_rules. \<forall>word \<in> set keywords.
             \<not> sublist word (lower ''Zzz'')"
    by code_simp
  have l: "lower ''zzZ'' = lower ''Zzz''"
    by code_simp
  from a u l detect_intent_first_match_wins [of "''My ATTENDANCE and my grades''"]
    detect_intent_first_match_wins [of "''Zzz''"]
    detect_intent_first_match_wins [of "''zzZ''" "''Zzz''"]
  show ?thesis by blast
qed

lemma sublist_gpa:
  assumes "any_in [''predict cgpa'', ''calculate cgpa'', ''target cgpa'', ''gpa calculator''] t"
  shows "sublist ''gpa'' t"
proof -
  from assms obtain word
    where w: "word \<in> set [''predict cgpa'', ''calculate cgpa'', ''target cgpa'',
                           ''gpa calculator'']"
      and s: "sublist word t"
    by (auto simp: any_in_iff simp del: set_simps)
  have "\<forall>word \<in> set [''predict cgpa'', ''calculate cgpa'', ''target cgpa'', ''gpa calculator''].
          sublist ''gpa'' word"
    by code_simp
  with w have "sublist ''gpa'' word" by blast
  from this s show ?thesis by (rule sublist_order.order_trans)
qed

text \<open>
  Claim C6, as the code has it. The classifier never returns \<open>cgpa_calc\<close>: each keyword of
  that rule contains \<open>gpa\<close>, a keyword of the grades rule, so a text that matches the
  \<open>cgpa_calc\<close> rule matches the grades rule as well, and the classifier has returned at the
  grades rule or at one of the three rules before it (attendance, timetable, exams).
\<close>

theorem detect_intent_never_cgpa_calc:
  "detect_intent text \<noteq> ''cgpa_calc''
   \<and> (\<forall>word \<in> set [''predict cgpa'', ''calculate cgpa'', ''target cgpa'', ''gpa calculator''].
         sublist ''gpa'' word)
   \<and> (any_in [''predict cgpa'', ''calculate cgpa'', ''target cgpa'', ''gpa calculator'']
          (lower text)
        \<longrightarrow> any_in [''grade'', ''result'', ''marks'', ''cgpa'', ''sgpa'', ''gpa'', ''score'']
              (lower text)
          \<and> detect_intent text \<in> {''attendance'', ''timetable'', ''exams'', ''grades''})"
proof (intro conjI impI)
  have g: "any_in [''grade'', ''result'', ''marks'', ''cgpa'', ''sgpa'', ''gpa'', ''score''] t"
    if "any_in [''predict cgpa'', ''calculate cgpa'', ''target cgpa'', ''gpa calculator''] t"
    for t
    using sublist_gpa [OF that] by (simp add: any_in_iff)
  show "detect_intent text \<noteq> ''cgpa_calc''"
    using g [of "lower text"] by (simp add: detect_intent_def Let_def)
  show "\<forall>word \<in> set [''predict cgpa'', ''calculate cgpa'', ''target cgpa'', ''gpa calculator''].
          sublist ''gpa'' word"
    by code_simp
  assume c: "any_in [''predict cgpa'', ''calculate cgpa'', ''target cgpa'', ''gpa calculator'']
               (lower text)"
  from g [OF c]
  show "any_in [''grade'', ''result'', ''marks'', ''cgpa'', ''sgpa'', ''gpa'', ''score'']
          (lower text)" .
  from g [OF c]
  show "detect_intent text \<in> {''attendance'', ''timetable'', ''exams'', ''grades''}"
    by (simp add: detect_intent_def Let_def)
qed

theorem detect_intent_never_cgpa_calc_witness:
  "detect_intent ''Calculate CGPA'' = ''grades''"
proof -
  have c: "any_in [''predict cgpa'', ''calculate cgpa'', ''target cgpa'', ''gpa calculator'']
             (lower ''Calculate CGPA'')"
    by code_simp
  have n: "detect_intent ''Calculate CGPA'' \<notin> {''attendance'', ''timetable'', ''exams''}"
    by code_simp
  from c n detect_intent_never_cgpa_calc [of "''Calculate CGPA''"]
  show ?thesis by blast
qed

text \<open>
  Claim C6 as stated says that a text matching the \<open>cgpa_calc\<close> rule is classified as
  \<open>grades\<close>. The text \<open>predict cgpa exam\<close> matches that rule and is classified as \<open>exams\<close>,
  at the third rule.
\<close>

theorem cgpa_calc_text_not_grades:
  "any_in [''predict cgpa'', ''calculate cgpa'', ''target cgpa'', ''gpa calculator'']
     (lower ''predict cgpa exam'')
   \<and> detect_intent ''predict cgpa exam'' = ''exams''
   \<and> detect_intent ''predict cgpa exam'' \<noteq> ''grades''"
  by code_simp

section \<open>Properties of the day extraction\<close>

lemma lower_strftime_A: "lower (strftime_A now) = day_name now"
  by (cases now) (simp_all add: lower_def lower_char_def)

lemma days_following: "days ! ((weekday_index now + 1) mod 7) = day_name (following_day now)"
  by (cases now) (simp_all add: days_def)

lemma first_day_in_find: "first_day_in ds t = List.find (\<lambda>day. sublist day t) ds"
  by (induction ds) simp_all

text \<open>
  Claim C8. With \<open>t\<close> the lowercased text: the current day if \<open>t\<close> contains \<open>today\<close>;
  else the day after the current one if \<open>t\<close> contains \<open>tomorrow\<close>; else the first name in
  the order monday .. sunday that \<open>t\<close> contains; else the current day.
\<close>

theorem get_day_from_text_resolves:
  "get_day_from_text now text =
     (if sublist ''today'' (lower text) then day_name now
      else if sublist ''tomorrow'' (lower text) then day_name (following_day now)
      else (case List.find (\<lambda>day. sublist day (lower text))
                   [''monday'', ''tuesday'', ''wednesday'', ''thursday'', ''friday'',
                    ''saturday'', ''sunday''] of
              Some day \<Rightarrow> day
            | None \<Rightarrow> day_name now))"
  unfolding get_day_from_text_def Let_def lower_strftime_A days_following first_day_in_find
  by (simp only: days_def)

theorem get_day_from_text_resolves_witness:
  "get_day_from_text Sunday ''What about toMorrow?'' = ''monday''
   \<and> get_day_from_text Sunday ''Friday or Monday'' = ''monday''"
proof -
  have a: "\<not> sublist ''today'' (lower ''What about toMorrow?'')"
    and b: "sublist ''tomorrow'' (lower ''What about toMorrow?'')"
    by code_simp+
  have c: "\<not> sublist ''today'' (lower ''Friday or Monday'')"
    and d: "\<not> sublist ''tomorrow'' (lower ''Friday or Monday'')"
    and e: "List.find (\<lambda>day. sublist day (lower ''Friday or Monday''))
                   [''monday'', ''tuesday'', ''wednesday'', ''thursday'', ''friday'',
                    ''saturday'', ''sunday''] = Some ''monday''"
    by code_simp+
  show ?thesis
    using get_day_from_text_resolves [of Sunday "''What about toMorrow?''"]
      get_day_from_text_resolves [of Sunday "''Friday or Monday''"] a b c d e
    by simp
qed

section \<open>Properties of the record store\<close>








text \<open>
  Claim C3 fails on the code. After the upsert of Maths with 18 of 20 the aggregates are
  90, 20, 18, 2. \<open>delete_attendance\<close> removes the entry and leaves the four aggregates
  as they were, while the sums over the remaining (no) entries are 0.
\<close>

theorem delete_attendance_stale_aggregates:
  "attendance_in store_maths ''Ada Lovelace''
     = Some \<lparr>overall_percent = 90, total_classes = 20, present = 18, absent = 2,
             subjects = [(''Maths'', \<lparr>s_present = 18, s_total = 20, s_percent = 90\<rparr>)]\<rparr>
   \<and> attendance_after (delete_attendance store_maths ''Ada Lovelace'' ''Maths'') ''Ada Lovelace''
     = Some \<lparr>overall_percent = 90, total_classes = 20, present = 18, absent = 2,
             subjects = []\<rparr>
   \<and> sum_present [] = 0 \<and> sum_total [] = 0 \<and> percent_of (sum_present []) (sum_total []) = 0"
  by code_simp






text \<open>
  Claim C7. For a student of the store: deleting the attendance or the grade of a subject
  that has no entry answers with the success message and leaves the whole state as it was;
  deleting the exams of a subject that no exam entry has answers with the success message
  and leaves the store, and so the student's record, as it was.
\<close>

theorem delete_missing_is_noop:
  assumes "map_of (students (DATA s)) (lower student_key) = Some st"
  shows "(map_of (subjects (attendance st)) subject = None \<longrightarrow>
            delete_attendance s student_key subject
              = Inr (''Attendance deleted for '' @ subject, s))
       \<and> (map_of (current_semester (grades st)) subject = None \<longrightarrow>
            delete_grade s student_key subject = Inr (''Grade deleted for '' @ subject, s))
       \<and> ((\<forall>e \<in> set (exams st). ex_subject e \<noteq> subject) \<longrightarrow>
            (\<exists>s'. delete_exam s student_key subject = Inr (''Exam deleted for '' @ subject, s')
                 \<and> DATA s' = DATA s
                 \<and> map_of (students (DATA s')) (lower student_key) = Some st))"
proof (intro conjI impI)
  assume "map_of (subjects (attendance st)) subject = None"
  with assms show "delete_attendance s student_key subject
              = Inr (''Attendance deleted for '' @ subject, s)"
    by (simp add: delete_attendance_def)
next
  assume "map_of (current_semester (grades st)) subject = None"
  with assms show "delete_grade s student_key subject = Inr (''Grade deleted for '' @ subject, s)"
    by (simp add: delete_grade_def)
next
  assume "\<forall>e \<in> set (exams st). ex_subject e \<noteq> subject"
  then have f: "filter (\<lambda>e. ex_subject e \<noteq> subject) (exams st) = exams st"
    by simp
  from assms have u: "AList.update (lower student_key) st (students (DATA s)) = students (DATA s)"
    by (rule update_triv)
  from assms show "\<exists>s'. delete_exam s student_key subject = Inr (''Exam deleted for '' @ subject, s')
                 \<and> DATA s' = DATA s
                 \<and> map_of (students (DATA s')) (lower student_key) = Some st"
    by (simp add: delete_exam_def f u save_data_def put_student_def)
qed

theorem delete_missing_is_noop_witness:
  "delete_attendance store_maths ''Ada Lovelace'' ''Physics''
     = Inr (''Attendance deleted for Physics'', store_maths)
   \<and> delete_grade store_maths ''Ada Lovelace'' ''Physics''
     = Inr (''Grade deleted for Physics'', store_maths)
   \<and> (\<exists>s'. delete_exam store_maths ''Ada Lovelace'' ''Physics''
             = Inr (''Exam deleted for Physics'', s')
          \<and> DATA s' = DATA store_maths
          \<and> map_of (students (DATA s')) (lower ''Ada Lovelace'')
              = map_of (students (DATA store_maths)) (lower ''Ada Lovelace''))"
proof -
  obtain st where h: "map_of (students (DATA store_maths)) (lower ''Ada Lovelace'') = Some st"
    and a: "map_of (subjects (attendance st)) ''Physics'' = None"
    and g: "map_of (current_semester (grades st)) ''Physics'' = None"
    and x: "\<forall>e \<in> set (exams st). ex_subject e \<noteq> ''Physics''"
  proof
    show "map_of (students (DATA store_maths)) (lower ''Ada Lovelace'')
            = Some (ada\<lparr>attendance :=
                     \<lparr>overall_percent = 90, total_classes = 20, present = 18, absent = 2,
                      subjects =
                        [(''Maths'', \<lparr>s_present = 18, s_total = 20, s_percent = 90\<rparr>)]\<rparr>\<rparr>)"
      by code_simp
  qed (simp_all add: ada_def)
  from delete_missing_is_noop [OF h, of "''Physics''"] a g x h
  show ?thesis by simp
qed

section \<open>Properties of the query path\<close>

lemma suffixes_distinct:
  "low_attendance_warning \<noteq> commendation"
  "low_attendance_warning \<noteq> []"
  "commendation \<noteq> []"
  by (simp_all add: low_attendance_warning_def commendation_def nl_def icon_warning_def
      icon_star_def)

lemma process_found:
  assumes "FILE s = Some d" and "map_of (students d) (lower (q_user q)) = Some st"
  shows "process render s q =
           (if detect_intent (lower (q_text q)) = ''attendance''
            then Inr (attendance_reply (attendance st))
            else if detect_intent (lower (q_text q)) \<in> set other_intents
            then render (detect_intent (lower (q_text q))) (lower (q_text q)) st d
            else Inr fallback_reply,
            s\<lparr>DATA := d\<rparr>)"
  using assms by (simp add: process_def Let_def)

text \<open>
  Claim C9. For a caller whose record is found and a text classified as \<open>attendance\<close>, the
  reply is the summary followed by a suffix; the suffix is the warning exactly when
  \<open>overall_percent < 75\<close>, the commendation exactly when \<open>overall_percent \<ge> 90\<close>, and
  empty exactly when \<open>75 \<le> overall_percent < 90\<close>. Warning and commendation differ, so
  no reply carries both.
\<close>

theorem attendance_reply_thresholds:
  assumes "FILE s = Some d"
    and "map_of (students d) (lower (q_user q)) = Some st"
    and "detect_intent (lower (q_text q)) = ''attendance''"
  shows "\<exists>sfx.
           process render s q = (Inr (attendance_summary (attendance st) @ sfx), s\<lparr>DATA := d\<rparr>)
         \<and> (sfx = low_attendance_warning \<longleftrightarrow> overall_percent (attendance st) < 75)
         \<and> (sfx = commendation \<longleftrightarrow> 90 \<le> overall_percent (attendance st))
         \<and> (sfx = [] \<longleftrightarrow>
              75 \<le> overall_percent (attendance st) \<and> overall_percent (attendance st) < 90)
         \<and> low_attendance_warning \<noteq> commendation"
proof -
  let ?o = "overall_percent (attendance st)"
  let ?sfx = "if ?o < 75 then low_attendance_warning else if 90 \<le> ?o then commendation else []"
  have "process render s q = (Inr (attendance_summary (attendance st) @ ?sfx), s\<lparr>DATA := d\<rparr>)"
    using assms by (simp add: process_found attendance_reply_def Let_def)
  moreover have "?sfx = low_attendance_warning \<longleftrightarrow> ?o < 75"
    using suffixes_distinct by auto
  moreover have "?sfx = commendation \<longleftrightarrow> 90 \<le> ?o"
    using suffixes_distinct by auto
  moreover have "?sfx = [] \<longleftrightarrow> 75 \<le> ?o \<and> ?o < 90"
    using suffixes_distinct by auto
  ultimately show ?thesis
    using suffixes_distinct(1) by blast
qed

theorem attendance_reply_thresholds_witness:
  "process (\<lambda>intent text st d. Inl (RenderFailed intent)) store_maths
     \<lparr>q_text = ''What is my attendance?'', q_user = ''Ada Lovelace''\<rparr>
   = (Inr (attendance_summary
             \<lparr>overall_percent = 90, total_classes = 20, present = 18, absent = 2,
              subjects = [(''Maths'', \<lparr>s_present = 18, s_total = 20, s_percent = 90\<rparr>)]\<rparr>
           @ commendation),
      store_maths)"
proof -
  let ?att = "\<lparr>overall_percent = 90, total_classes = 20, present = 18, absent = 2,
               subjects = [(''Maths'', \<lparr>s_present = 18, s_total = 20, s_percent = 90\<rparr>)]\<rparr>"
  let ?q = "\<lparr>q_text = ''What is my attendance?'', q_user = ''Ada Lovelace''\<rparr>"
  have f: "FILE store_maths = Some (DATA store_maths)"
    by code_simp
  have h: "map_of (students (DATA store_maths)) (lower (q_user ?q)) = Some (ada\<lparr>attendance := ?att\<rparr>)"
    by code_simp
  have i: "detect_intent (lower (q_text ?q)) = ''attendance''"
    by code_simp
  from attendance_reply_thresholds [OF f h i]
  show ?thesis by auto
qed

text \<open>
  Claim C10. With the store file readable: a caller whose lowercased identifier is no key of
  the store gets the successful reply \<open>Sorry, I couldn't find data for ...\<close>, whatever the
  text; a caller who is found, with a text classified as \<open>unknown\<close>, gets the successful
  fallback reply, which names the supported topics. (The first case fixes the reply for
  every text of an unknown caller, so the second speaks of callers who are found.) In both
  cases the file is not written and \<open>DATA\<close> is the store as loaded: the state is unchanged
  when \<open>DATA\<close> was in step with the file.
\<close>

theorem query_failures_reply:
  assumes "FILE s = Some d"
  shows "(map_of (students d) (lower (q_user q)) = None \<longrightarrow>
            process render s q = (Inr (not_found_reply (q_user q)), s\<lparr>DATA := d\<rparr>))
       \<and> (map_of (students d) (lower (q_user q)) = Some st
            \<and> detect_intent (lower (q_text q)) = ''unknown'' \<longrightarrow>
            process render s q = (Inr fallback_reply, s\<lparr>DATA := d\<rparr>))
       \<and> FILE (s\<lparr>DATA := d\<rparr>) = FILE s
       \<and> (DATA s = d \<longrightarrow> s\<lparr>DATA := d\<rparr> = s)
       \<and> not_found_reply (q_user q) =
           ''Sorry, I couldn't find data for '' @ q_user q @ ''. Please check your credentials.''
       \<and> list_all (\<lambda>topic. sublist topic fallback_reply)
           [''attendance'', ''timetable'', ''exams'', ''fees'', ''library'', ''placements'',
            ''events'', ''faculty'', ''cafeteria'']"
proof (intro conjI impI)
  assume "map_of (students d) (lower (q_user q)) = None"
  with assms show "process render s q = (Inr (not_found_reply (q_user q)), s\<lparr>DATA := d\<rparr>)"
    by (simp add: process_def Let_def)
next
  assume "map_of (students d) (lower (q_user q)) = Some st
            \<and> detect_intent (lower (q_text q)) = ''unknown''"
  with assms show "process render s q = (Inr fallback_reply, s\<lparr>DATA := d\<rparr>)"
    by (simp add: process_found other_intents_def)
next
  show "list_all (\<lambda>topic. sublist topic fallback_reply)
           [''attendance'', ''timetable'', ''exams'', ''fees'', ''library'', ''placements'',
            ''events'', ''faculty'', ''cafeteria'']"
    by code_simp
qed (simp_all add: not_found_reply_def)

theorem query_failures_reply_witness:
  "process (\<lambda>intent text st d. Inl (RenderFailed intent)) store0
     \<lparr>q_text = ''zzz'', q_user = ''Bob''\<rparr>
     = (Inr ''Sorry, I couldn't find data for Bob. Please check your credentials.'', store0)
   \<and> process (\<lambda>intent text st d. Inl (RenderFailed intent)) store0
     \<lparr>q_text = ''zzz'', q_user = ''Ada Lovelace''\<rparr>
     = (Inr fallback_reply, store0)"
proof -
  have f: "FILE store0 = Some (DATA store0)"
    by code_simp
  have b: "map_of (students (DATA store0)) (lower ''Bob'') = None"
    by code_simp
  have a: "map_of (students (DATA store0)) (lower ''Ada Lovelace'') = Some ada"
    by code_simp
  have u: "detect_intent (lower ''zzz'') = ''unknown''"
    by code_simp
  from query_failures_reply [OF f, where q = "\<lparr>q_text = ''zzz'', q_user = ''Bob''\<rparr>"]
    query_failures_reply
      [OF f, where q = "\<lparr>q_text = ''zzz'', q_user = ''Ada Lovelace''\<rparr>" and st = ada]
    a b u
  show ?thesis by (simp add: not_found_reply_def)
qed

end
